theory Spec2Isabelle
  imports Complex_Main "HOL-Library.Char_ord" "HOL-Library.List_Lexorder"
begin

section \<open>The product catalog service of \<^verbatim>\<open>main.py\<close>\<close>

text \<open>
  \<^verbatim>\<open>main.py\<close> is a FastAPI application over one MongoDB collection, \<^verbatim>\<open>product\<close>.
  The four handlers \<^verbatim>\<open>list_products\<close>, \<^verbatim>\<open>get_categories\<close>, \<^verbatim>\<open>create_product\<close> and
  \<^verbatim>\<open>seed_products\<close> are embedded below as functions of the store handle \<^verbatim>\<open>db\<close>
  (\<open>None\<close> when the store is not configured) that return the response or the error,
  and the store after the call where the handler writes.

  Each route has two layers, as in FastAPI: the framework first validates the request
  against the handler's parameter declarations (\<^verbatim>\<open>Query(48, ge=1, le=200)\<close>, the
  \<^verbatim>\<open>CreateProduct\<close> body model) and answers 422 itself when that fails; only then is
  the handler's body run. The embedding keeps the layers apart: \<open>list_products\<close> and
  \<open>create_product\<close> are the Python functions on validated arguments,
  \<open>get_api_products\<close> and \<open>post_api_products\<close> are the routes on raw requests.
\<close>

subsection \<open>Errors\<close>

datatype error =
    HTTPException nat string  \<comment> \<open>\<^verbatim>\<open>raise HTTPException(status_code=..., detail=...)\<close>\<close>
  | RequestValidationError    \<comment> \<open>the framework rejects the request before the handler runs\<close>
  | Unhandled                 \<comment> \<open>an exception that leaves the handler uncaught\<close>

fun status_code :: "error \<Rightarrow> nat" where
  "status_code (HTTPException c d) = c"
| "status_code RequestValidationError = 422"
| "status_code Unhandled = 500"

text \<open>What a call into the store client gives back: an exception, or a value.\<close>

datatype 'a outcome = Raised | Returned 'a

subsection \<open>Records of the data model\<close>

text \<open>
  \<^verbatim>\<open>class CreateProduct(BaseModel)\<close>, lines 67 to 74. Python's \<^verbatim>\<open>float\<close> values are
  carried as reals: no arithmetic is done on them. The field \<^verbatim>\<open>image\<close> is named
  \<open>image_url\<close>, since \<open>image\<close> is a constant of HOL.
\<close>

record CreateProduct =
  title :: string
  description :: "string option"
  price :: real
  category :: string
  in_stock :: bool
  image_url :: "string option"
  rating :: "real option"

text \<open>
  A stored document is the inserted dict with the \<^verbatim>\<open>_id\<close> the store assigned to it
  (\<open>oid\<close>); a serialized item has \<^verbatim>\<open>id\<close>, a string, in its place (\<open>id_str\<close>).
  The collection is taken to hold product documents as this service writes them,
  with every field of the declared type.
\<close>

record document = CreateProduct +
  oid :: nat

record item = CreateProduct +
  id_str :: string

text \<open>
  The database handle \<^verbatim>\<open>db\<close>: \<^verbatim>\<open>db[name]\<close> is the collection of that name, in
  insertion order. \<open>next_oid\<close> is the store's source of fresh identifiers.
\<close>

record database =
  collections :: "string \<Rightarrow> document list"
  next_oid :: nat

subsection \<open>JSON request bodies\<close>

datatype json =
    JNull
  | JBool bool
  | JNum real
  | JStr string
  | JArr "json list"
  | JObj "(string \<times> json) list"

subsection \<open>Query documents\<close>

text \<open>
  The filter dict that \<^verbatim>\<open>list_products\<close> builds has two shapes of entry:
  \<^verbatim>\<open>"$or": [{field: {"$regex": p, "$options": o}}, ...]\<close> and \<^verbatim>\<open>field: value\<close>.
\<close>

datatype cond =
    Regex string string  \<comment> \<open>\<^verbatim>\<open>{"$regex": pattern, "$options": options}\<close>\<close>
  | Equals string        \<comment> \<open>a plain string value: equality\<close>

datatype entry =
    Or "(string \<times> cond) list"  \<comment> \<open>\<^verbatim>\<open>"$or": [{field: cond}, ...]\<close>\<close>
  | Field string cond          \<comment> \<open>\<^verbatim>\<open>field: cond\<close>\<close>

type_synonym filt = "entry list"

subsection \<open>What lies outside the source file\<close>

text \<open>
  The behaviour of the libraries and of the declarations that \<^verbatim>\<open>main.py\<close> imports is a
  parameter of the model, so that every theorem holds whatever they do:
  \<^item> \<open>regex_compile p o\<close>: the store's regular-expression engine on pattern \<open>p\<close> with
    options \<open>o\<close>; \<open>None\<close> when the pattern is rejected, otherwise the test whether a
    text contains a match;
  \<^item> \<open>as_str\<close>, \<open>as_bool\<close>: the validators of the body model's field types \<^verbatim>\<open>str\<close> and
    \<^verbatim>\<open>bool\<close> on a JSON value, \<open>None\<close> when the value is rejected;
  \<^item> \<open>float_of_str\<close>: the parser that the validator of the field type \<^verbatim>\<open>float\<close> applies
    to a string, \<open>None\<close> when the string is not the text of a number;
  \<^item> \<open>ProductSchema\<close>: the model \<^verbatim>\<open>schemas.Product\<close> applied to the five keyword
    arguments of line 119; \<open>None\<close> when it raises, otherwise its \<^verbatim>\<open>model_dump()\<close>;
  \<^item> \<open>find_one_by_id db new_id\<close>: lines 130 and 131, the import of \<^verbatim>\<open>ObjectId\<close>, the
    conversion of \<open>new_id\<close> and \<^verbatim>\<open>find_one({"_id": ...})\<close> together;
  \<^item> \<open>find_one_latest db\<close>: line 133, \<^verbatim>\<open>find_one(sort=[("_id", -1)])\<close>.
\<close>

record env =
  regex_compile :: "string \<Rightarrow> string \<Rightarrow> (string \<Rightarrow> bool) option"
  as_str :: "json \<Rightarrow> string option"
  as_bool :: "json \<Rightarrow> bool option"
  float_of_str :: "string \<Rightarrow> real option"
  ProductSchema :: "string \<Rightarrow> string option \<Rightarrow> real \<Rightarrow> string \<Rightarrow> bool
    \<Rightarrow> (string \<times> string option \<times> real \<times> string \<times> bool) option"
  find_one_by_id :: "database \<Rightarrow> string \<Rightarrow> document option outcome"
  find_one_latest :: "database \<Rightarrow> document option outcome"

subsection \<open>The module \<^verbatim>\<open>database\<close>\<close>

text \<open>The string form of an identifier: its decimal digits.\<close>

definition digit_char :: "nat \<Rightarrow> char" where
  "digit_char d = ''0123456789'' ! (d mod 10)"

fun str_oid :: "nat \<Rightarrow> string" where
  "str_oid n = (if n < 10 then [digit_char n] else str_oid (n div 10) @ [digit_char n])"

text \<open>
  Modelled from the spec: \<^verbatim>\<open>create_document\<close> of the module \<^verbatim>\<open>database\<close>, which is not
  among the source files. Section 4.1: it "inserts exactly one new record; assigns a
  fresh unique id", and section 3: the id is "assigned by storage on creation".
  The call returns the new identifier as a string.
\<close>

definition create_document :: "database \<Rightarrow> string \<Rightarrow> CreateProduct \<Rightarrow> string \<times> database" where
  "create_document db name data =
     (let new = \<lparr>title = title data, description = description data, price = price data,
                 category = category data, in_stock = in_stock data,
                 image_url = image_url data, rating = rating data, oid = next_oid db\<rparr>
      in (str_oid (next_oid db),
          db\<lparr>collections := (collections db)(name := collections db name @ [new]),
             next_oid := Suc (next_oid db)\<rparr>))"

text \<open>The text of a field of a document; \<open>None\<close> for null and for a field that holds no text.\<close>

definition field_text :: "document \<Rightarrow> string \<Rightarrow> string option" where
  "field_text d k =
     (if k = ''title'' then Some (title d)
      else if k = ''description'' then description d
      else if k = ''category'' then Some (category d)
      else if k = ''image'' then image_url d
      else None)"

fun cond_valid :: "env \<Rightarrow> cond \<Rightarrow> bool" where
  "cond_valid e (Regex p opts) = (regex_compile e p opts \<noteq> None)"
| "cond_valid e (Equals v) = True"

fun entry_valid :: "env \<Rightarrow> entry \<Rightarrow> bool" where
  "entry_valid e (Or cs) = list_all (\<lambda>(k, c). cond_valid e c) cs"
| "entry_valid e (Field k c) = cond_valid e c"

fun cond_holds :: "env \<Rightarrow> cond \<Rightarrow> string option \<Rightarrow> bool" where
  "cond_holds e (Regex p opts) v =
     (case regex_compile e p opts of
        None \<Rightarrow> False
      | Some m \<Rightarrow> (case v of None \<Rightarrow> False | Some t \<Rightarrow> m t))"
| "cond_holds e (Equals s) v = (v = Some s)"

fun entry_holds :: "env \<Rightarrow> document \<Rightarrow> entry \<Rightarrow> bool" where
  "entry_holds e d (Or cs) = list_ex (\<lambda>(k, c). cond_holds e c (field_text d k)) cs"
| "entry_holds e d (Field k c) = cond_holds e c (field_text d k)"

definition matches :: "env \<Rightarrow> filt \<Rightarrow> document \<Rightarrow> bool" where
  "matches e f d = list_all (entry_holds e d) f"

text \<open>
  Modelled from the spec: \<^verbatim>\<open>get_documents\<close> of the module \<^verbatim>\<open>database\<close>, which is not
  among the source files. Section 4.1: the result is the "ordered sequence of
  matching products (storage-defined order when unspecified), capped at limit items";
  the filters of one query combine "with logical AND", the clauses of \<^verbatim>\<open>$or\<close> with OR.
  A pattern that the store's engine rejects makes the query raise.
\<close>

definition get_documents :: "env \<Rightarrow> database \<Rightarrow> string \<Rightarrow> filt \<Rightarrow> int \<Rightarrow> document list outcome" where
  "get_documents e db name f limit =
     (if list_all (entry_valid e) f
      then Returned (take (nat limit) (filter (matches e f) (collections db name)))
      else Raised)"

subsection \<open>Store calls made by \<^verbatim>\<open>main.py\<close> itself\<close>

text \<open>\<^verbatim>\<open>db["product"].count_documents({})\<close>\<close>

definition count_documents :: "database \<Rightarrow> string \<Rightarrow> nat" where
  "count_documents db name = length (collections db name)"

text \<open>
  \<^verbatim>\<open>db["product"].distinct("category")\<close>: each value once. The order in which the
  store lists them is not fixed; the caller sorts.
\<close>

definition distinct_category :: "database \<Rightarrow> string \<Rightarrow> string list" where
  "distinct_category db name = remdups (map category (collections db name))"

subsection \<open>The handlers\<close>

text \<open>
  \<^verbatim>\<open>_serialize\<close>, lines 77 to 84. \<^verbatim>\<open>not doc\<close> holds of \<^verbatim>\<open>None\<close>; a document of the
  store always carries \<^verbatim>\<open>_id\<close>, which becomes the string \<^verbatim>\<open>id\<close>.
\<close>

definition serialize :: "document option \<Rightarrow> item option" where
  "serialize doc =
     (case doc of
        None \<Rightarrow> None
      | Some d \<Rightarrow>
          Some \<lparr>title = title d, description = description d, price = price d,
                category = category d, in_stock = in_stock d,
                image_url = image_url d, rating = rating d, id_str = str_oid (oid d)\<rparr>)"

text \<open>Python's truth value of an \<^verbatim>\<open>Optional[str]\<close>: \<^verbatim>\<open>None\<close> and \<^verbatim>\<open>""\<close> are false.\<close>

fun truthy :: "string option \<Rightarrow> bool" where
  "truthy None = False"
| "truthy (Some s) = (s \<noteq> [])"

text \<open>Lines 94 to 101: the filter dict.\<close>

definition build_filt :: "string option \<Rightarrow> string option \<Rightarrow> filt" where
  "build_filt search category_arg =
     (let filt = [];
          filt = (if truthy search
                  then filt @ [Or [(''title'', Regex (the search) ''i''),
                                   (''description'', Regex (the search) ''i'')]]
                  else filt);
          filt = (if truthy category_arg
                  then filt @ [Field ''category'' (Equals (the category_arg))]
                  else filt)
      in filt)"

text \<open>\<^verbatim>\<open>list_products\<close>, lines 87 to 104, on validated arguments. The result is \<^verbatim>\<open>items\<close>.\<close>

definition list_products ::
  "env \<Rightarrow> database option \<Rightarrow> string option \<Rightarrow> string option \<Rightarrow> int \<Rightarrow> error + item option list" where
  "list_products e db search category_arg limit =
     (case db of
        None \<Rightarrow> Inl (HTTPException 500 ''Database not configured'')
      | Some s \<Rightarrow>
          (case get_documents e s ''product'' (build_filt search category_arg) limit of
             Raised \<Rightarrow> Inl Unhandled
           | Returned docs \<Rightarrow> Inr (map (\<lambda>d. serialize (Some d)) docs)))"

text \<open>
  The declaration \<^verbatim>\<open>limit: int = Query(48, ge=1, le=200)\<close>: the default when the
  parameter is absent, and the two bounds the framework checks.
\<close>

definition Query_limit :: "int option \<Rightarrow> error + int" where
  "Query_limit raw =
     (case raw of
        None \<Rightarrow> Inr 48
      | Some l \<Rightarrow> if 1 \<le> l \<and> l \<le> 200 then Inr l else Inl RequestValidationError)"

text \<open>The route \<^verbatim>\<open>GET /api/products\<close>: parameter validation, then the handler.\<close>

definition get_api_products ::
  "env \<Rightarrow> database option \<Rightarrow> string option \<Rightarrow> string option \<Rightarrow> int option
     \<Rightarrow> error + item option list" where
  "get_api_products e db search category_arg raw_limit =
     (case Query_limit raw_limit of
        Inl err \<Rightarrow> Inl err
      | Inr limit \<Rightarrow> list_products e db search category_arg limit)"

text \<open>\<^verbatim>\<open>get_categories\<close>, lines 107 to 112. The result is \<^verbatim>\<open>items\<close>.\<close>

definition get_categories :: "database option \<Rightarrow> error + string list" where
  "get_categories db =
     (case db of
        None \<Rightarrow> Inl (HTTPException 500 ''Database not configured'')
      | Some s \<Rightarrow>
          (let cats = distinct_category s ''product''
           in Inr (sort (filter (\<lambda>c. c \<noteq> []) cats))))"

text \<open>
  Line 127, \<^verbatim>\<open>db["product"].find_one({"_id": ...get_default_database()})\<close>: the value
  looked up under \<^verbatim>\<open>_id\<close> is a database handle. The client cannot encode a handle as
  a query value (and has no default database to return when its address names none),
  so the statement raises on every call, whatever the collection holds.
\<close>

definition default_database_find :: "database \<Rightarrow> document option outcome" where
  "default_database_find db = Raised"

text \<open>
  \<^verbatim>\<open>create_product\<close>, lines 115 to 134, on a validated payload. The result is \<^verbatim>\<open>item\<close>,
  which is null when \<^verbatim>\<open>created\<close> is \<^verbatim>\<open>None\<close>; the second component is the store after
  the call. An exception of \<^verbatim>\<open>ProductSchema\<close> or of the lookup of line 127 is not caught:
  both stand outside the \<^verbatim>\<open>try\<close> of lines 129 to 133.
\<close>

definition create_product ::
  "env \<Rightarrow> database option \<Rightarrow> CreateProduct \<Rightarrow> (error + item option) \<times> database option" where
  "create_product e db payload =
     (case db of
        None \<Rightarrow> (Inl (HTTPException 500 ''Database not configured''), db)
      | Some s \<Rightarrow>
          (case ProductSchema e (title payload) (description payload) (price payload)
                  (category payload) (in_stock payload) of
             None \<Rightarrow> (Inl Unhandled, db)
           | Some (t, d, p, c, i) \<Rightarrow>
               (let (new_id, s') =
                      create_document s ''product''
                        \<lparr>title = t, description = d, price = p, category = c, in_stock = i,
                         image_url = image_url payload, rating = rating payload\<rparr>
                in case default_database_find s' of
                     Raised \<Rightarrow> (Inl Unhandled, Some s')
                   | Returned doc \<Rightarrow>
                       (case find_one_by_id e s' new_id of
                          Returned created \<Rightarrow> (Inr (serialize created), Some s')
                        | Raised \<Rightarrow>
                            (case find_one_latest e s' of
                               Raised \<Rightarrow> (Inl Unhandled, Some s')
                             | Returned created \<Rightarrow> (Inr (serialize created), Some s'))))))"

text \<open>
  The body model of \<^verbatim>\<open>POST /api/products\<close>: \<^verbatim>\<open>title\<close>, \<^verbatim>\<open>price\<close> and \<^verbatim>\<open>category\<close> have
  no default and are required; an \<^verbatim>\<open>Optional\<close> field takes null; the others have their
  defaults.
\<close>

definition required :: "(json \<Rightarrow> 'a option) \<Rightarrow> json option \<Rightarrow> 'a option" where
  "required validate v = (case v of None \<Rightarrow> None | Some j \<Rightarrow> validate j)"

definition with_default :: "(json \<Rightarrow> 'a option) \<Rightarrow> 'a \<Rightarrow> json option \<Rightarrow> 'a option" where
  "with_default validate dflt v = (case v of None \<Rightarrow> Some dflt | Some j \<Rightarrow> validate j)"

definition optional :: "(json \<Rightarrow> 'a option) \<Rightarrow> json option \<Rightarrow> 'a option option" where
  "optional validate v =
     (case v of
        None \<Rightarrow> Some None
      | Some JNull \<Rightarrow> Some None
      | Some j \<Rightarrow> map_option Some (validate j))"

text \<open>
  The validator of the field type \<^verbatim>\<open>float\<close> on a JSON value, as the body model applies
  it: a number is taken as it is, a boolean as 1 or 0, a string is parsed as the text of
  a number, and null, a list and an object are rejected. No text of a number has a
  letter other than those of \<^verbatim>\<open>e\<close>, \<^verbatim>\<open>inf\<close>, \<^verbatim>\<open>infinity\<close> and \<^verbatim>\<open>nan\<close>; the parser is
  consulted for the strings that have none.
\<close>

definition foreign_letter :: "char \<Rightarrow> bool" where
  "foreign_letter c = (c \<in> set ''bcdghjklmopqrsuvwxzBCDGHJKLMOPQRSUVWXZ'')"

fun validate_float :: "env \<Rightarrow> json \<Rightarrow> real option" where
  "validate_float e (JNum r) = Some r"
| "validate_float e (JBool b) = Some (if b then 1 else 0)"
| "validate_float e (JStr s) = (if list_ex foreign_letter s then None else float_of_str e s)"
| "validate_float e JNull = None"
| "validate_float e (JArr xs) = None"
| "validate_float e (JObj kvs) = None"

definition CreateProduct_validate :: "env \<Rightarrow> (string \<Rightarrow> json option) \<Rightarrow> CreateProduct option" where
  "CreateProduct_validate e body =
     Option.bind (required (as_str e) (body ''title'')) (\<lambda>t.
     Option.bind (optional (as_str e) (body ''description'')) (\<lambda>d.
     Option.bind (required (validate_float e) (body ''price'')) (\<lambda>p.
     Option.bind (required (as_str e) (body ''category'')) (\<lambda>c.
     Option.bind (with_default (as_bool e) True (body ''in_stock'')) (\<lambda>i.
     Option.bind (optional (as_str e) (body ''image'')) (\<lambda>im.
     Option.bind (optional (validate_float e) (body ''rating'')) (\<lambda>r.
       Some \<lparr>title = t, description = d, price = p, category = c, in_stock = i,
             image_url = im, rating = r\<rparr>)))))))"

text \<open>The route \<^verbatim>\<open>POST /api/products\<close>: body validation, then the handler.\<close>

definition post_api_products ::
  "env \<Rightarrow> database option \<Rightarrow> (string \<Rightarrow> json option)
     \<Rightarrow> (error + item option) \<times> database option" where
  "post_api_products e db body =
     (case CreateProduct_validate e body of
        None \<Rightarrow> (Inl RequestValidationError, db)
      | Some payload \<Rightarrow> create_product e db payload)"

text \<open>The list \<^verbatim>\<open>sample\<close> of \<^verbatim>\<open>seed_products\<close>, lines 144 to 199.\<close>

definition sample :: "CreateProduct list" where
  "sample =
     [\<lparr>title = ''Apple iPhone 15'',
       description = Some ''Dynamic Island, A16 Bionic, 6.1-inch Super Retina XDR'',
       price = 799.0, category = ''Mobiles'', in_stock = True,
       image_url = Some ''https://images.unsplash.com/photo-1695048133142-93b2b88a93df?w=800'',
       rating = Some 4.6\<rparr>,
      \<lparr>title = ''Samsung Galaxy S23'',
       description = Some ''Snapdragon 8 Gen 2, Pro-grade camera'',
       price = 699.0, category = ''Mobiles'', in_stock = True,
       image_url = Some ''https://images.unsplash.com/photo-1675866231057-1c5efb395c3b?w=800'',
       rating = Some 4.5\<rparr>,
      \<lparr>title = ''Sony WH-1000XM5'',
       description = Some ''Industry leading noise canceling headphones'',
       price = 349.0, category = ''Audio'', in_stock = True,
       image_url = Some ''https://images.unsplash.com/photo-1546435770-a3e426bf472b?w=800'',
       rating = Some 4.7\<rparr>,
      \<lparr>title = ''HP Victus Gaming Laptop'',
       description = Some ''Ryzen 7, RTX 4060, 16GB RAM, 512GB SSD'',
       price = 1199.0, category = ''Laptops'', in_stock = True,
       image_url = Some ''https://images.unsplash.com/photo-1517336714731-489689fd1ca8?w=800'',
       rating = Some 4.3\<rparr>,
      \<lparr>title = ''Nike Air Max'',
       description = Some ''Breathable mesh, all-day comfort'',
       price = 129.0, category = ''Fashion'', in_stock = True,
       image_url = Some ''https://images.unsplash.com/photo-1542291026-7eec264c27ff?w=800'',
       rating = Some 4.4\<rparr>,
      \<lparr>title = ''Canon EOS R10'',
       description = Some ''Mirrorless camera with 24.2MP sensor'',
       price = 999.0, category = ''Cameras'', in_stock = True,
       image_url = Some ''https://images.unsplash.com/photo-1519183071298-a2962be96f83?w=800'',
       rating = Some 4.5\<rparr>]"

text \<open>The two response shapes of \<^verbatim>\<open>seed_products\<close>.\<close>

datatype seed_response =
    AlreadyExist string string nat  \<comment> \<open>\<^verbatim>\<open>status\<close>, \<^verbatim>\<open>message\<close>, \<^verbatim>\<open>count\<close>\<close>
  | Seeded string nat nat           \<comment> \<open>\<^verbatim>\<open>status\<close>, \<^verbatim>\<open>inserted\<close>, \<^verbatim>\<open>count\<close>\<close>

text \<open>The loop of lines 201 and 202.\<close>

fun insert_all :: "database \<Rightarrow> CreateProduct list \<Rightarrow> database" where
  "insert_all db [] = db"
| "insert_all db (s # rest) = insert_all (snd (create_document db ''product'' s)) rest"

text \<open>\<^verbatim>\<open>seed_products\<close>, lines 137 to 205.\<close>

definition seed_products :: "database option \<Rightarrow> (error + seed_response) \<times> database option" where
  "seed_products db =
     (case db of
        None \<Rightarrow> (Inl (HTTPException 500 ''Database not configured''), db)
      | Some s \<Rightarrow>
          (let count = count_documents s ''product''
           in if count > 0
              then (Inr (AlreadyExist ''ok'' ''Products already exist'' count), db)
              else (let s' = insert_all s sample;
                        new_count = count_documents s' ''product''
                    in (Inr (Seeded ''ok'' (length sample) new_count), Some s'))))"

subsection \<open>The search contract in the spec's words\<close>

text \<open>
  Section 4.1 reads \<^verbatim>\<open>search\<close> as a "case-insensitive substring ... matched against
  title OR description". \<open>ci_substring\<close> and \<open>search_matches\<close> follow these words, to be
  compared with the filter that the source builds; letters are folded in ASCII.
\<close>

definition lower_char :: "char \<Rightarrow> char" where
  "lower_char c =
     (case map_of (zip ''ABCDEFGHIJKLMNOPQRSTUVWXYZ'' ''abcdefghijklmnopqrstuvwxyz'') c of
        None \<Rightarrow> c
      | Some l \<Rightarrow> l)"

fun occurs_in :: "'a list \<Rightarrow> 'a list \<Rightarrow> bool" where
  "occurs_in s [] = (s = [])"
| "occurs_in s (c # t) = (take (length s) (c # t) = s \<or> occurs_in s t)"

definition ci_substring :: "string \<Rightarrow> string \<Rightarrow> bool" where
  "ci_substring s t = occurs_in (map lower_char s) (map lower_char t)"

definition search_matches :: "string \<Rightarrow> document \<Rightarrow> bool" where
  "search_matches s d =
     (ci_substring s (title d) \<or>
      (case description d of None \<Rightarrow> False | Some t \<Rightarrow> ci_substring s t))"

subsection \<open>Concrete environments and stores\<close>

text \<open>
  An environment for the evaluations below: patterns are matched as literal text
  without regard to case, a string and a boolean are accepted by the validator of their
  own type, the parser of number texts reads plain decimal numerals such as \<^verbatim>\<open>12.5\<close>,
  the schema accepts its arguments unchanged, and the lookups find what the collection
  holds.
\<close>

fun json_str :: "json \<Rightarrow> string option" where
  "json_str (JStr s) = Some s"
| "json_str j = None"

definition digit_of :: "char \<Rightarrow> nat option" where
  "digit_of c = map_of (zip ''0123456789'' [0, 1, 2, 3, 4, 5, 6, 7, 8, 9]) c"

fun digits_value :: "nat \<Rightarrow> string \<Rightarrow> nat option" where
  "digits_value n [] = Some n"
| "digits_value n (c # cs) =
     (case digit_of c of None \<Rightarrow> None | Some d \<Rightarrow> digits_value (10 * n + d) cs)"

definition decimal_text :: "string \<Rightarrow> real option" where
  "decimal_text s =
     (let whole = takeWhile (\<lambda>c. c \<noteq> CHR ''.'') s;
          rest = dropWhile (\<lambda>c. c \<noteq> CHR ''.'') s
      in if whole = [] then None
         else case digits_value 0 whole of
                None \<Rightarrow> None
              | Some w \<Rightarrow>
                  (case rest of
                     [] \<Rightarrow> Some (real w)
                   | point # decimals \<Rightarrow>
                       if decimals = [] then None
                       else case digits_value 0 decimals of
                              None \<Rightarrow> None
                            | Some f \<Rightarrow> Some (real w + real f / 10 ^ length decimals)))"

fun json_bool :: "json \<Rightarrow> bool option" where
  "json_bool (JBool b) = Some b"
| "json_bool j = None"

definition latest :: "document list \<Rightarrow> document option" where
  "latest ds = (case ds of [] \<Rightarrow> None | d # rest \<Rightarrow> Some (last ds))"

definition plain_env :: env where
  "plain_env =
     \<lparr>regex_compile = (\<lambda>p opts. Some (ci_substring p)),
      as_str = json_str,
      as_bool = json_bool,
      float_of_str = decimal_text,
      ProductSchema = (\<lambda>t d p c i. Some (t, d, p, c, i)),
      find_one_by_id =
        (\<lambda>db new_id. Returned (find (\<lambda>d. str_oid (oid d) = new_id) (collections db ''product''))),
      find_one_latest = (\<lambda>db. Returned (latest (collections db ''product'')))\<rparr>"

definition empty_db :: database where
  "empty_db = \<lparr>collections = (\<lambda>name. []), next_oid = 0\<rparr>"

definition phone_a :: document where
  "phone_a =
     \<lparr>title = ''Phone A'', description = None, price = 10, category = ''Mobiles'',
      in_stock = True, image_url = None, rating = None, oid = 0\<rparr>"

definition phone_b :: document where
  "phone_b =
     \<lparr>title = ''Phone B'', description = Some ''a second phone'', price = 20,
      category = ''Mobiles'', in_stock = True, image_url = None, rating = None, oid = 1\<rparr>"

definition phones_db :: database where
  "phones_db = \<lparr>collections = (\<lambda>name. [])(''product'' := [phone_a, phone_b]), next_oid = 2\<rparr>"

definition pen :: CreateProduct where
  "pen =
     \<lparr>title = ''Pen'', description = None, price = 2, category = ''Office'',
      in_stock = True, image_url = None, rating = None\<rparr>"

definition untitled_body :: "string \<Rightarrow> json option" where
  "untitled_body = [''price'' \<mapsto> JNum 799, ''category'' \<mapsto> JStr ''Mobiles'']"

definition text_price_body :: "string \<Rightarrow> json option" where
  "text_price_body =
     [''title'' \<mapsto> JStr ''Pen'', ''price'' \<mapsto> JStr ''cheap'', ''category'' \<mapsto> JStr ''Office'']"

definition bool_price_body :: "string \<Rightarrow> json option" where
  "bool_price_body =
     [''title'' \<mapsto> JStr ''Pen'', ''price'' \<mapsto> JBool True, ''category'' \<mapsto> JStr ''Office'']"

definition number_text_body :: "string \<Rightarrow> json option" where
  "number_text_body =
     [''title'' \<mapsto> JStr ''Pen'', ''price'' \<mapsto> JStr ''12.5'', ''category'' \<mapsto> JStr ''Office'']"

definition headset :: document where
  "headset =
     \<lparr>title = ''Headset'', description = Some ''for a PHONE or a laptop'', price = 30,
      category = ''Audio'', in_stock = True, image_url = None, rating = None, oid = 2\<rparr>"

definition unfiled :: document where
  "unfiled =
     \<lparr>title = ''Cable'', description = None, price = 3, category = [],
      in_stock = False, image_url = None, rating = None, oid = 3\<rparr>"

definition mixed_db :: database where
  "mixed_db =
     \<lparr>collections = (\<lambda>name. [])(''product'' := [phone_a, headset, unfiled, phone_b]),
      next_oid = 4\<rparr>"

text \<open>The empty store after \<open>pen\<close> has been inserted, and the document it then holds.\<close>

definition pen_db :: database where
  "pen_db = snd (create_document empty_db ''product'' pen)"

definition pen_doc :: document where
  "pen_doc =
     \<lparr>title = ''Pen'', description = None, price = 2, category = ''Office'',
      in_stock = True, image_url = None, rating = None, oid = 0\<rparr>"

section \<open>Properties\<close>

subsection \<open>The filter that \<^verbatim>\<open>list_products\<close> builds\<close>

lemma build_filt_empty_search: "build_filt (Some []) c = build_filt None c"
  by (simp add: build_filt_def)

lemma build_filt_empty_category: "build_filt s (Some []) = build_filt s None"
  by (simp add: build_filt_def)

lemma list_products_empty_search:
  "list_products e db (Some []) c limit = list_products e db None c limit"
  unfolding list_products_def build_filt_empty_search ..

lemma list_products_empty_category:
  "list_products e db s (Some []) limit = list_products e db s None limit"
  unfolding list_products_def build_filt_empty_category ..

lemma matches_search:
  assumes "s \<noteq> []" and "regex_compile e s ''i'' = Some m"
  shows "matches e (build_filt (Some s) None) d
           = (m (title d) \<or> (case description d of None \<Rightarrow> False | Some t \<Rightarrow> m t))"
  using assms by (simp add: matches_def build_filt_def field_text_def)

lemma matches_category:
  assumes "c \<noteq> []"
  shows "matches e (build_filt None (Some c)) d = (category d = c)"
  using assms by (auto simp add: matches_def build_filt_def field_text_def)

lemma matches_both:
  assumes "s \<noteq> []" and "c \<noteq> []" and "regex_compile e s ''i'' = Some m"
  shows "matches e (build_filt (Some s) (Some c)) d
           = ((m (title d) \<or> (case description d of None \<Rightarrow> False | Some t \<Rightarrow> m t))
              \<and> category d = c)"
  using assms by (auto simp add: matches_def build_filt_def field_text_def)

lemma valid_search:
  assumes "s \<noteq> []"
  shows "list_all (entry_valid e) (build_filt (Some s) c) = (regex_compile e s ''i'' \<noteq> None)"
  using assms by (cases c) (auto simp add: build_filt_def Let_def)

lemma valid_no_search: "list_all (entry_valid e) (build_filt None c)"
  by (cases c) (auto simp add: build_filt_def Let_def)

lemma serialize_fields:
  assumes "serialize (Some d') = serialize (Some d)"
  shows "title d' = title d \<and> description d' = description d \<and> category d' = category d"
  using assms by (simp add: serialize_def)

subsection \<open>Evaluations on the concrete stores\<close>

lemma phones_both:
  "list_products plain_env (Some phones_db) None None 200
     = Inr [serialize (Some phone_a), serialize (Some phone_b)]"
  by (simp add: list_products_def get_documents_def build_filt_def plain_env_def phones_db_def
        matches_def)

lemma phones_first:
  "list_products plain_env (Some phones_db) None None 1 = Inr [serialize (Some phone_a)]"
  by (simp add: list_products_def get_documents_def build_filt_def plain_env_def phones_db_def
        matches_def)

lemma phones_mobiles_first:
  "list_products plain_env (Some phones_db) None (Some ''Mobiles'') 1
     = Inr [serialize (Some phone_a)]"
  by (simp add: list_products_def get_documents_def build_filt_def plain_env_def phones_db_def
        matches_def field_text_def phone_a_def phone_b_def)

lemma ci_phone_a: "ci_substring ''phone'' ''Phone A''"
  by (simp add: ci_substring_def lower_char_def)

lemma ci_phone_b: "ci_substring ''phone'' ''Phone B''"
  by (simp add: ci_substring_def lower_char_def)

lemma ci_headset: "\<not> ci_substring ''phone'' ''Headset''"
  by (simp add: ci_substring_def lower_char_def)

lemma ci_headset_text: "ci_substring ''phone'' ''for a PHONE or a laptop''"
  by (simp add: ci_substring_def lower_char_def)

lemma ci_cable: "\<not> ci_substring ''phone'' ''Cable''"
  by (simp add: ci_substring_def lower_char_def)

lemma mixed_product: "collections mixed_db ''product'' = [phone_a, headset, unfiled, phone_b]"
  by (simp add: mixed_db_def)

lemma search_phones_first:
  "list_products plain_env (Some phones_db) (Some ''phone'') None 1
     = Inr [serialize (Some phone_a)]"
  by (simp add: list_products_def get_documents_def build_filt_def plain_env_def phones_db_def
        matches_def field_text_def phone_a_def phone_b_def ci_phone_a ci_phone_b)

lemma search_mixed_empty_category:
  "list_products plain_env (Some mixed_db) (Some ''phone'') (Some []) 48
     = Inr [serialize (Some phone_a), serialize (Some headset), serialize (Some phone_b)]"
  by (simp add: list_products_def get_documents_def build_filt_def plain_env_def mixed_product
        matches_def field_text_def phone_a_def phone_b_def headset_def unfiled_def
        ci_phone_a ci_phone_b ci_headset ci_headset_text ci_cable)

lemma search_mixed_mobiles:
  "list_products plain_env (Some mixed_db) (Some ''phone'') (Some ''Mobiles'') 48
     = Inr [serialize (Some phone_a), serialize (Some phone_b)]"
  by (simp add: list_products_def get_documents_def build_filt_def plain_env_def mixed_product
        matches_def field_text_def phone_a_def phone_b_def headset_def unfiled_def
        ci_phone_a ci_phone_b ci_headset ci_headset_text ci_cable)

lemma categories_mixed: "get_categories (Some mixed_db) = Inr [''Audio'', ''Mobiles'']"
  by (simp add: get_categories_def distinct_category_def mixed_product
        phone_a_def phone_b_def headset_def unfiled_def)

lemma pen_inserted:
  "create_document empty_db ''product''
     \<lparr>title = ''Pen'', description = None, price = 2, category = ''Office'', in_stock = True,
      image_url = image_url pen, rating = rating pen\<rparr> = (''0'', pen_db)"
  by (simp add: pen_db_def create_document_def empty_db_def pen_def digit_char_def)

lemma pen_db_product: "collections pen_db ''product'' = [pen_doc]"
  by (simp add: pen_db_def create_document_def empty_db_def pen_def pen_doc_def)

subsection \<open>The limit of \<^verbatim>\<open>GET /api/products\<close>\<close>

text \<open>
  Claim C1 says that a limit outside the bounds 1 and 200 is clamped to the nearest
  bound and that an absent limit is 48. The declaration \<^verbatim>\<open>Query(48, ge=1, le=200)\<close>
  does not clamp: it makes the framework reject such a request, and the handler is not
  run. With two products in the store, a limit of 500 gives an error and not the two
  products that a limit of 200 gives; a limit of 0 gives an error and not the one
  product that a limit of 1 gives.
\<close>

theorem limit_not_clamped_counterexample:
  "get_api_products plain_env (Some phones_db) None None (Some 500) = Inl RequestValidationError
   \<and> list_products plain_env (Some phones_db) None None 200
       = Inr [serialize (Some phone_a), serialize (Some phone_b)]
   \<and> get_api_products plain_env (Some phones_db) None None (Some 0) = Inl RequestValidationError
   \<and> list_products plain_env (Some phones_db) None None 1 = Inr [serialize (Some phone_a)]"
  by (simp add: phones_both phones_first get_api_products_def Query_limit_def)

text \<open>
  Claim C1 as the code has it: a limit below 1 or above 200 is rejected with a
  validation error before the handler runs, so that no query is made; a limit from 1
  to 200 is used as it is; an absent limit is 48.
\<close>

theorem limit_rejected_outside_bounds:
  "(l < 1 \<or> 200 < l \<longrightarrow>
      get_api_products e db search category_arg (Some l) = Inl RequestValidationError)
   \<and> (1 \<le> l \<and> l \<le> 200 \<longrightarrow>
        get_api_products e db search category_arg (Some l)
          = list_products e db search category_arg l)
   \<and> get_api_products e db search category_arg None
       = list_products e db search category_arg 48"
  by (auto simp add: get_api_products_def Query_limit_def)

theorem limit_rejected_outside_bounds_witness:
  "get_api_products plain_env (Some phones_db) None None (Some 201) = Inl RequestValidationError
   \<and> get_api_products plain_env (Some phones_db) None None (Some 1)
       = Inr [serialize (Some phone_a)]
   \<and> get_api_products plain_env (Some phones_db) None None None
       = list_products plain_env (Some phones_db) None None 48"
  using limit_rejected_outside_bounds [of 201 plain_env "Some phones_db" None None]
        limit_rejected_outside_bounds [of 1 plain_env "Some phones_db" None None]
        phones_first
  by simp

subsection \<open>Empty-string parameters\<close>

text \<open>
  Claim C10: \<^verbatim>\<open>search\<close> or \<^verbatim>\<open>category\<close> given as the empty string gives the same
  result as the parameter left out, for every store, every other parameter and every
  limit: the empty string is false in \<^verbatim>\<open>if search:\<close> and \<^verbatim>\<open>if category:\<close>, so the same
  filter is built. This holds of the handler and of the route.
\<close>

theorem list_products_empty_string_unfiltered:
  "list_products e db (Some []) category_arg limit = list_products e db None category_arg limit
   \<and> list_products e db search (Some []) limit = list_products e db search None limit
   \<and> get_api_products e db (Some []) category_arg raw_limit
       = get_api_products e db None category_arg raw_limit
   \<and> get_api_products e db search (Some []) raw_limit
       = get_api_products e db search None raw_limit"
  unfolding get_api_products_def list_products_empty_search list_products_empty_category
  by simp

theorem list_products_empty_string_unfiltered_witness:
  "list_products plain_env (Some phones_db) (Some []) (Some ''Mobiles'') 1
     = Inr [serialize (Some phone_a)]
   \<and> list_products plain_env (Some phones_db) None (Some ''Mobiles'') 1
     = Inr [serialize (Some phone_a)]"
  using list_products_empty_string_unfiltered [of plain_env "Some phones_db" "Some ''Mobiles''" 1]
        phones_mobiles_first
  by simp

subsection \<open>The store is not configured\<close>

text \<open>
  Claim C8: when the store handle is absent, each of the four handlers raises
  \<^verbatim>\<open>HTTPException(status_code=500, detail="Database not configured")\<close> as its first
  step, whatever its arguments, and no store comes into being.
\<close>

theorem handlers_fail_without_store:
  "list_products e None search category_arg limit
     = Inl (HTTPException 500 ''Database not configured'')
   \<and> get_categories None = Inl (HTTPException 500 ''Database not configured'')
   \<and> create_product e None payload
       = (Inl (HTTPException 500 ''Database not configured''), None)
   \<and> seed_products None = (Inl (HTTPException 500 ''Database not configured''), None)"
  by (simp add: list_products_def get_categories_def create_product_def seed_products_def)

theorem handlers_fail_without_store_witness:
  "list_products plain_env None (Some ''phone'') None 48
     = Inl (HTTPException 500 ''Database not configured'')
   \<and> get_categories None = Inl (HTTPException 500 ''Database not configured'')
   \<and> create_product plain_env None pen
       = (Inl (HTTPException 500 ''Database not configured''), None)
   \<and> seed_products None = (Inl (HTTPException 500 ''Database not configured''), None)
   \<and> status_code (HTTPException 500 ''Database not configured'') = 500"
  using handlers_fail_without_store [of plain_env "Some ''phone''" None 48 pen] by simp

subsection \<open>Invalid bodies of \<^verbatim>\<open>POST /api/products\<close>\<close>

lemma validate_float_rejects:
  assumes "v = JNull \<or> (\<exists>xs. v = JArr xs) \<or> (\<exists>kvs. v = JObj kvs)
           \<or> (\<exists>s. v = JStr s \<and> (list_ex foreign_letter s \<or> float_of_str e s = None))"
  shows "validate_float e v = None"
  using assms by auto

lemma pen_price_count:
  "count_documents (snd (create_document empty_db ''product'' (pen\<lparr>price := p\<rparr>))) ''product'' = 1"
  by (simp add: count_documents_def create_document_def empty_db_def)

lemma decimal_text_example: "decimal_text ''12.5'' = Some 12.5"
  by (simp add: decimal_text_def digit_of_def)

text \<open>
  Claim C7 says that a body with a missing required field or with a non-numeric price
  fails with a validation error before any write, the count of the collection
  unchanged. The field is declared \<^verbatim>\<open>price: float\<close>, and the validator of that type
  takes more than numbers: the boolean \<^verbatim>\<open>true\<close> is accepted as 1 and the string
  \<^verbatim>\<open>"12.5"\<close> as 12.5. With either as the price the body passes validation, the record
  is written, so that the count goes from 0 to 1, and the error the caller gets is the
  one of line 127, not a validation error.
\<close>

theorem post_api_products_bool_price_counterexample:
  "bool_price_body ''price'' = Some (JBool True)
   \<and> post_api_products plain_env (Some empty_db) bool_price_body
       = (Inl Unhandled, Some (snd (create_document empty_db ''product'' (pen\<lparr>price := 1\<rparr>))))
   \<and> number_text_body ''price'' = Some (JStr ''12.5'')
   \<and> post_api_products plain_env (Some empty_db) number_text_body
       = (Inl Unhandled, Some (snd (create_document empty_db ''product'' (pen\<lparr>price := 12.5\<rparr>))))
   \<and> count_documents empty_db ''product'' = 0
   \<and> count_documents (snd (create_document empty_db ''product'' (pen\<lparr>price := 1\<rparr>)))
         ''product'' = 1
   \<and> count_documents (snd (create_document empty_db ''product'' (pen\<lparr>price := 12.5\<rparr>)))
         ''product'' = 1"
proof -
  have a: "CreateProduct_validate plain_env bool_price_body = Some (pen\<lparr>price := 1\<rparr>)"
    by (simp add: CreateProduct_validate_def required_def optional_def with_default_def
          bool_price_body_def plain_env_def pen_def)
  have b: "CreateProduct_validate plain_env number_text_body = Some (pen\<lparr>price := 12.5\<rparr>)"
    by (simp add: CreateProduct_validate_def required_def optional_def with_default_def
          number_text_body_def plain_env_def pen_def decimal_text_example
          foreign_letter_def)
  have c: "create_product plain_env (Some empty_db) (pen\<lparr>price := p\<rparr>)
             = (Inl Unhandled, Some (snd (create_document empty_db ''product'' (pen\<lparr>price := p\<rparr>))))"
    for p
    by (simp add: create_product_def plain_env_def pen_def default_database_find_def split_beta)
  have d: "count_documents empty_db ''product'' = 0"
    by (simp add: count_documents_def empty_db_def)
  show ?thesis
    by (simp add: post_api_products_def a b c d pen_price_count)
       (simp add: bool_price_body_def number_text_body_def)
qed

text \<open>
  Claim C7 as the code has it: a body in which \<^verbatim>\<open>title\<close>, \<^verbatim>\<open>price\<close> or \<^verbatim>\<open>category\<close> is
  missing, or in which \<^verbatim>\<open>price\<close> is null, a list, an object or a string that is not
  the text of a number, fails with a validation error, and the store is the one before
  the call: nothing was written. A string is not the text of a number when it has a
  letter that no such text has, or when the parser rejects it.
\<close>

theorem post_api_products_rejects_invalid:
  assumes "body ''title'' = None \<or> body ''price'' = None \<or> body ''category'' = None
           \<or> body ''price'' = Some JNull
           \<or> (\<exists>xs. body ''price'' = Some (JArr xs))
           \<or> (\<exists>kvs. body ''price'' = Some (JObj kvs))
           \<or> (\<exists>s. body ''price'' = Some (JStr s)
                  \<and> (list_ex foreign_letter s \<or> float_of_str e s = None))"
  shows "post_api_products e db body = (Inl RequestValidationError, db)"
proof -
  have price: "required (validate_float e) (body ''price'') = None"
    if "body ''price'' = Some v" and "validate_float e v = None" for v
    using that by (simp add: required_def)
  have "required (as_str e) (body ''title'') = None
        \<or> required (validate_float e) (body ''price'') = None
        \<or> required (as_str e) (body ''category'') = None"
    using assms price validate_float_rejects [of _ e]
    by (auto simp add: required_def)
  then have "CreateProduct_validate e body = None"
    by (auto simp add: CreateProduct_validate_def Option.bind_eq_None_conv)
  then show ?thesis by (simp add: post_api_products_def)
qed

theorem post_api_products_rejects_invalid_witness:
  "post_api_products plain_env (Some empty_db) untitled_body
     = (Inl RequestValidationError, Some empty_db)
   \<and> post_api_products plain_env (Some empty_db) text_price_body
     = (Inl RequestValidationError, Some empty_db)"
proof -
  have a: "untitled_body ''title'' = None \<or> untitled_body ''price'' = None
           \<or> untitled_body ''category'' = None
           \<or> untitled_body ''price'' = Some JNull
           \<or> (\<exists>xs. untitled_body ''price'' = Some (JArr xs))
           \<or> (\<exists>kvs. untitled_body ''price'' = Some (JObj kvs))
           \<or> (\<exists>s. untitled_body ''price'' = Some (JStr s)
                  \<and> (list_ex foreign_letter s \<or> float_of_str plain_env s = None))"
    by (simp add: untitled_body_def)
  have "list_ex foreign_letter ''cheap''"
    by (simp add: foreign_letter_def)
  then have b: "text_price_body ''title'' = None \<or> text_price_body ''price'' = None
           \<or> text_price_body ''category'' = None
           \<or> text_price_body ''price'' = Some JNull
           \<or> (\<exists>xs. text_price_body ''price'' = Some (JArr xs))
           \<or> (\<exists>kvs. text_price_body ''price'' = Some (JObj kvs))
           \<or> (\<exists>s. text_price_body ''price'' = Some (JStr s)
                  \<and> (list_ex foreign_letter s \<or> float_of_str plain_env s = None))"
    by (simp add: text_price_body_def)
  from post_api_products_rejects_invalid [OF a] post_api_products_rejects_invalid [OF b]
  show ?thesis by simp
qed

text \<open>The schema of line 119 is applied before the insert as well.\<close>

lemma create_product_schema_raises:
  assumes "ProductSchema e (title payload) (description payload) (price payload)
             (category payload) (in_stock payload) = None"
  shows "create_product e (Some s) payload = (Inl Unhandled, Some s)"
  using assms by (simp add: create_product_def)

subsection \<open>The list of categories\<close>

text \<open>
  Claim C6: for every store, \<^verbatim>\<open>get_categories\<close> returns a list without duplicates and
  without the empty string, sorted, whose elements are exactly the non-empty categories
  of the stored products. Strings are ordered as Python orders them, character by
  character.
\<close>

theorem get_categories_sorted_distinct:
  "\<exists>cats. get_categories (Some s) = Inr cats
     \<and> distinct cats \<and> [] \<notin> set cats \<and> sorted cats
     \<and> set cats = {c. c \<noteq> [] \<and> c \<in> category ` set (collections s ''product'')}"
  by (auto simp add: get_categories_def distinct_category_def)

theorem get_categories_sorted_distinct_witness:
  "get_categories (Some mixed_db) = Inr [''Audio'', ''Mobiles'']
   \<and> (\<exists>cats. get_categories (Some mixed_db) = Inr cats
        \<and> distinct cats \<and> [] \<notin> set cats \<and> sorted cats
        \<and> set cats = {c. c \<noteq> [] \<and> c \<in> category ` set (collections mixed_db ''product'')})"
  using get_categories_sorted_distinct [of mixed_db] categories_mixed by blast

subsection \<open>Seeding\<close>

lemma collections_create_document:
  "collections (snd (create_document db name x)) name
     = collections db name @
         [\<lparr>title = title x, description = description x, price = price x,
           category = category x, in_stock = in_stock x,
           image_url = image_url x, rating = rating x, oid = next_oid db\<rparr>]"
  by (simp add: create_document_def Let_def)

lemma length_insert_all:
  "length (collections (insert_all db xs) ''product'')
     = length (collections db ''product'') + length xs"
  by (induction xs arbitrary: db) (simp_all add: collections_create_document)

lemma category_insert_all:
  "map category (collections (insert_all db xs) ''product'')
     = map category (collections db ''product'') @ map category xs"
  by (induction xs arbitrary: db) (simp_all add: collections_create_document)

lemma truncate_document:
  "CreateProduct.truncate
     \<lparr>title = title x, description = description x, price = price x,
      category = category x, in_stock = in_stock x,
      image_url = image_url x, rating = rating x, oid = n\<rparr> = (x::CreateProduct)"
  by (simp add: CreateProduct.truncate_def)

lemma truncate_insert_all:
  "map CreateProduct.truncate (collections (insert_all db xs) ''product'')
     = map CreateProduct.truncate (collections db ''product'') @ xs"
  by (induction xs arbitrary: db) (simp_all add: collections_create_document truncate_document)

lemma length_sample: "length sample = 6"
  by (simp add: sample_def)

lemma category_sample:
  "map category sample
     = [''Mobiles'', ''Mobiles'', ''Audio'', ''Laptops'', ''Fashion'', ''Cameras'']"
  by (simp add: sample_def)

lemma seed_products_empty:
  assumes "collections s ''product'' = []"
  shows "seed_products (Some s) = (Inr (Seeded ''ok'' 6 6), Some (insert_all s sample))"
  using assms
  by (simp add: seed_products_def count_documents_def Let_def length_insert_all length_sample)

lemma seed_products_nonempty:
  assumes "collections s ''product'' \<noteq> []"
  shows "seed_products (Some s)
           = (Inr (AlreadyExist ''ok'' ''Products already exist''
                     (length (collections s ''product''))), Some s)"
  using assms by (simp add: seed_products_def count_documents_def Let_def)

text \<open>
  Claim C3: on a store whose product collection holds at least one record,
  \<^verbatim>\<open>seed_products\<close> inserts nothing, leaves the store as it is and reports the count
  of the collection. On an empty collection the first call reports 6 inserted and a
  count of 6, and a second call on the store it leaves inserts nothing and reports the
  count 6 again.
\<close>

theorem seed_products_idempotent:
  "(collections s ''product'' \<noteq> [] \<longrightarrow>
      seed_products (Some s)
        = (Inr (AlreadyExist ''ok'' ''Products already exist'' (count_documents s ''product'')),
           Some s))
   \<and> (collections s ''product'' = [] \<longrightarrow>
        (\<exists>s1. seed_products (Some s) = (Inr (Seeded ''ok'' 6 6), Some s1)
            \<and> count_documents s1 ''product'' = 6
            \<and> seed_products (Some s1)
                = (Inr (AlreadyExist ''ok'' ''Products already exist'' 6), Some s1)))"
proof (intro conjI impI)
  assume "collections s ''product'' \<noteq> []"
  then show "seed_products (Some s)
        = (Inr (AlreadyExist ''ok'' ''Products already exist'' (count_documents s ''product'')),
           Some s)"
    by (simp add: seed_products_nonempty count_documents_def)
next
  assume empty: "collections s ''product'' = []"
  let ?s1 = "insert_all s sample"
  have len: "length (collections ?s1 ''product'') = 6"
    by (simp add: length_insert_all length_sample empty)
  then have ne: "collections ?s1 ''product'' \<noteq> []" by auto
  have second: "seed_products (Some ?s1)
                  = (Inr (AlreadyExist ''ok'' ''Products already exist'' 6), Some ?s1)"
    using seed_products_nonempty [OF ne] len by simp
  have first: "seed_products (Some s) = (Inr (Seeded ''ok'' 6 6), Some ?s1)"
    by (rule seed_products_empty [OF empty])
  have cnt: "count_documents ?s1 ''product'' = 6"
    using len by (simp add: count_documents_def)
  from first cnt second
  show "\<exists>s1. seed_products (Some s) = (Inr (Seeded ''ok'' 6 6), Some s1)
            \<and> count_documents s1 ''product'' = 6
            \<and> seed_products (Some s1)
                = (Inr (AlreadyExist ''ok'' ''Products already exist'' 6), Some s1)"
    by blast
qed

theorem seed_products_idempotent_witness:
  "collections phones_db ''product'' \<noteq> []
   \<and> seed_products (Some phones_db)
       = (Inr (AlreadyExist ''ok'' ''Products already exist'' 2), Some phones_db)
   \<and> collections empty_db ''product'' = []
   \<and> (\<exists>s1. seed_products (Some empty_db) = (Inr (Seeded ''ok'' 6 6), Some s1)
        \<and> count_documents s1 ''product'' = 6
        \<and> seed_products (Some s1)
            = (Inr (AlreadyExist ''ok'' ''Products already exist'' 6), Some s1))"
proof -
  have full: "collections phones_db ''product'' \<noteq> []"
    by (simp add: phones_db_def)
  have two: "count_documents phones_db ''product'' = 2"
    by (simp add: phones_db_def count_documents_def)
  have none: "collections empty_db ''product'' = []"
    by (simp add: empty_db_def)
  from seed_products_idempotent [of phones_db] full two
  have a: "seed_products (Some phones_db)
       = (Inr (AlreadyExist ''ok'' ''Products already exist'' 2), Some phones_db)"
    by simp
  from seed_products_idempotent [of empty_db] none
  have b: "\<exists>s1. seed_products (Some empty_db) = (Inr (Seeded ''ok'' 6 6), Some s1)
        \<and> count_documents s1 ''product'' = 6
        \<and> seed_products (Some s1)
            = (Inr (AlreadyExist ''ok'' ''Products already exist'' 6), Some s1)"
    by blast
  from full a none b show ?thesis by blast
qed

text \<open>
  Claim C9: on an empty product collection, \<^verbatim>\<open>seed_products\<close> inserts the six records
  of \<^verbatim>\<open>sample\<close>, in their order and with their fields, whose categories are exactly
  Mobiles, Audio, Laptops, Fashion and Cameras, and it reports 6 inserted together with
  the count of the collection after the inserts, which is 6.
\<close>

theorem seed_products_inserts_sample:
  assumes "collections s ''product'' = []"
  shows "\<exists>s1. seed_products (Some s)
                = (Inr (Seeded ''ok'' 6 (count_documents s1 ''product'')), Some s1)
     \<and> count_documents s1 ''product'' = 6
     \<and> map CreateProduct.truncate (collections s1 ''product'') = sample
     \<and> length sample = 6
     \<and> set (map category (collections s1 ''product''))
         = {''Mobiles'', ''Audio'', ''Laptops'', ''Fashion'', ''Cameras''}"
proof -
  let ?s1 = "insert_all s sample"
  have cnt: "count_documents ?s1 ''product'' = 6"
    by (simp add: count_documents_def length_insert_all length_sample assms)
  have same: "map CreateProduct.truncate (collections ?s1 ''product'') = sample"
    by (simp add: truncate_insert_all assms)
  have "map category (collections ?s1 ''product'')
          = [''Mobiles'', ''Mobiles'', ''Audio'', ''Laptops'', ''Fashion'', ''Cameras'']"
    by (simp only: category_insert_all assms category_sample list.map append_Nil)
  then have cats: "set (map category (collections ?s1 ''product''))
         = {''Mobiles'', ''Audio'', ''Laptops'', ''Fashion'', ''Cameras''}"
    by (simp only: list.set insert_absorb2)
  have first: "seed_products (Some s)
                 = (Inr (Seeded ''ok'' 6 (count_documents ?s1 ''product'')), Some ?s1)"
    using seed_products_empty [OF assms] cnt by simp
  from first cnt same length_sample cats show ?thesis by blast
qed

theorem seed_products_inserts_sample_witness:
  "collections empty_db ''product'' = []
   \<and> (\<exists>s1. seed_products (Some empty_db)
              = (Inr (Seeded ''ok'' 6 (count_documents s1 ''product'')), Some s1)
        \<and> count_documents s1 ''product'' = 6
        \<and> map CreateProduct.truncate (collections s1 ''product'') = sample)"
proof -
  have h: "collections empty_db ''product'' = []" by (simp add: empty_db_def)
  from seed_products_inserts_sample [OF h] h show ?thesis by blast
qed

subsection \<open>Reading the created record back\<close>

lemma count_create_document:
  "count_documents (snd (create_document s name x)) name = Suc (count_documents s name)"
  by (simp add: count_documents_def create_document_def Let_def)

text \<open>
  The lookups of lines 130 to 133 have no part in the result: whatever they would
  give, the call gives the same.
\<close>

lemma create_product_lookups_unreached:
  "create_product (e\<lparr>find_one_by_id := f, find_one_latest := g\<rparr>) db payload
     = create_product e db payload"
  by (simp add: create_product_def default_database_find_def split: option.splits prod.splits)

text \<open>
  Claim C2 says that \<^verbatim>\<open>create_product\<close> falls back to the most recently inserted record
  when the re-fetch by the assigned id fails, and gives the caller an error when the
  fallback fails too. Lines 129 to 133 are written to do the first of these, as the
  comment of line 128 says, but they are not reached: the statement of line 127 stands
  before the \<^verbatim>\<open>try\<close> and raises. Every call on a configured store that passes the
  schema therefore writes the record and then ends in an error that no handler
  catches, without a re-fetch and without a fallback.
\<close>

theorem create_product_fails_after_write:
  assumes schema: "ProductSchema e (title payload) (description payload) (price payload)
                     (category payload) (in_stock payload) = Some (t, d, p, c, i)"
      and inserted: "create_document s ''product''
                     \<lparr>title = t, description = d, price = p, category = c, in_stock = i,
                      image_url = image_url payload, rating = rating payload\<rparr> = (new_id, s')"
  shows "create_product e (Some s) payload = (Inl Unhandled, Some s')
     \<and> status_code Unhandled = 500
     \<and> count_documents s' ''product'' = Suc (count_documents s ''product'')"
proof -
  have "create_product e (Some s) payload = (Inl Unhandled, Some s')"
    using schema inserted by (simp add: create_product_def default_database_find_def)
  moreover have "count_documents s' ''product'' = Suc (count_documents s ''product'')"
    using count_create_document [of s "''product''"] inserted
    by (metis snd_conv)
  ultimately show ?thesis by simp
qed

theorem create_product_fails_after_write_witness:
  "create_product plain_env (Some empty_db) pen = (Inl Unhandled, Some pen_db)
   \<and> collections empty_db ''product'' = []
   \<and> collections pen_db ''product'' = [pen_doc]"
proof -
  have schema: "ProductSchema plain_env (title pen) (description pen) (price pen)
                     (category pen) (in_stock pen) = Some (''Pen'', None, 2, ''Office'', True)"
    by (simp add: plain_env_def pen_def)
  have "collections empty_db ''product'' = []"
    by (simp add: empty_db_def)
  with create_product_fails_after_write [OF schema pen_inserted] pen_db_product
  show ?thesis by simp
qed

subsection \<open>Searching\<close>

lemma search_matches_phone_a: "search_matches ''phone'' phone_a"
  by (simp add: search_matches_def phone_a_def ci_phone_a)

lemma search_matches_phone_b: "search_matches ''phone'' phone_b"
  by (simp add: search_matches_def phone_b_def ci_phone_b)

lemma search_matches_headset: "search_matches ''phone'' headset"
  by (simp add: search_matches_def headset_def ci_headset_text)

lemma search_matches_unfiled: "\<not> search_matches ''phone'' unfiled"
  by (simp add: search_matches_def unfiled_def ci_cable)

text \<open>
  Claim C4 says that, for a non-empty search string, a stored product is returned if
  and only if the string occurs, without regard to case, in its title or in its
  description. The result is capped at the limit: of two stored products whose titles
  both contain the string, a call with limit 1 returns the first only.
\<close>

theorem list_products_search_limit_counterexample:
  "phone_b \<in> set (collections phones_db ''product'')
   \<and> ci_substring ''phone'' (title phone_b)
   \<and> list_products plain_env (Some phones_db) (Some ''phone'') None 1
       = Inr [serialize (Some phone_a)]
   \<and> serialize (Some phone_b) \<notin> set [serialize (Some phone_a)]"
proof -
  have "serialize (Some phone_b) \<noteq> serialize (Some phone_a)"
    by (simp add: serialize_def phone_a_def phone_b_def)
  moreover have "ci_substring ''phone'' (title phone_b)"
    by (simp add: phone_b_def ci_phone_b)
  moreover have "phone_b \<in> set (collections phones_db ''product'')"
    by (simp add: phones_db_def)
  ultimately show ?thesis using search_phones_first by simp
qed

text \<open>
  Claim C4 as the code has it. The search string is handed to the store as a regular
  expression with the option \<^verbatim>\<open>i\<close>. For a non-empty search string that the store's
  engine matches as literal text without regard to case, and with no category given,
  \<^verbatim>\<open>list_products\<close> returns the first \<^verbatim>\<open>limit\<close> products, in the order of the store,
  in whose title or description the string occurs. So every returned product has the
  string in its title or description, and every stored product that has it is returned
  when no more than \<^verbatim>\<open>limit\<close> products have it.
\<close>

theorem list_products_search_capped:
  assumes nonempty: "search \<noteq> []"
      and literal: "regex_compile e search ''i'' = Some (ci_substring search)"
  shows "\<exists>items. list_products e (Some s) (Some search) None limit = Inr items
     \<and> items = map (\<lambda>d. serialize (Some d))
                 (take (nat limit) (filter (search_matches search) (collections s ''product'')))
     \<and> (\<forall>d \<in> set (collections s ''product'').
           serialize (Some d) \<in> set items \<longrightarrow> search_matches search d)
     \<and> (length (filter (search_matches search) (collections s ''product'')) \<le> nat limit \<longrightarrow>
          (\<forall>d \<in> set (collections s ''product'').
             search_matches search d \<longrightarrow> serialize (Some d) \<in> set items))"
proof -
  let ?docs = "collections s ''product''"
  let ?items = "map (\<lambda>d. serialize (Some d))
                  (take (nat limit) (filter (search_matches search) ?docs))"
  have m: "matches e (build_filt (Some search) None) = search_matches search"
    by (rule ext) (simp add: matches_search [OF nonempty literal] search_matches_def)
  have v: "list_all (entry_valid e) (build_filt (Some search) None)"
    by (simp add: valid_search [OF nonempty] literal)
  have res: "list_products e (Some s) (Some search) None limit = Inr ?items"
    by (simp add: list_products_def get_documents_def v m)
  have sound: "\<forall>d \<in> set ?docs. serialize (Some d) \<in> set ?items \<longrightarrow> search_matches search d"
  proof (intro ballI impI)
    fix d assume "d \<in> set ?docs" and "serialize (Some d) \<in> set ?items"
    then obtain d' where d': "d' \<in> set (take (nat limit) (filter (search_matches search) ?docs))"
      and eq: "serialize (Some d') = serialize (Some d)" by auto
    from d' have "d' \<in> set (filter (search_matches search) ?docs)" by (rule in_set_takeD)
    then have "search_matches search d'" by simp
    with serialize_fields [OF eq] show "search_matches search d"
      by (simp add: search_matches_def)
  qed
  have complete: "length (filter (search_matches search) ?docs) \<le> nat limit \<longrightarrow>
          (\<forall>d \<in> set ?docs. search_matches search d \<longrightarrow> serialize (Some d) \<in> set ?items)"
  proof (intro ballI impI)
    fix d assume le: "length (filter (search_matches search) ?docs) \<le> nat limit"
      and "d \<in> set ?docs" and "search_matches search d"
    then have "d \<in> set (filter (search_matches search) ?docs)" by simp
    with le have "d \<in> set (take (nat limit) (filter (search_matches search) ?docs))" by simp
    then show "serialize (Some d) \<in> set ?items" by simp
  qed
  from res sound complete show ?thesis by blast
qed

theorem list_products_search_capped_witness:
  "''phone'' \<noteq> []
   \<and> regex_compile plain_env ''phone'' ''i'' = Some (ci_substring ''phone'')
   \<and> list_products plain_env (Some mixed_db) (Some ''phone'') None 48
       = Inr [serialize (Some phone_a), serialize (Some headset), serialize (Some phone_b)]"
proof -
  have ne: "''phone'' \<noteq> []" by simp
  have lit: "regex_compile plain_env ''phone'' ''i'' = Some (ci_substring ''phone'')"
    by (simp add: plain_env_def)
  from list_products_search_capped [OF ne lit, of mixed_db 48]
  have "list_products plain_env (Some mixed_db) (Some ''phone'') None 48
       = Inr (map (\<lambda>d. serialize (Some d))
           (take (nat 48) (filter (search_matches ''phone'') (collections mixed_db ''product''))))"
    by blast
  then show ?thesis
    using ne lit
    by (simp add: mixed_product search_matches_phone_a search_matches_phone_b
          search_matches_headset search_matches_unfiled)
qed

text \<open>
  Claim C5 says that, for every call that supplies a search string and a category,
  every returned record matches the search and has the given category. A category
  supplied as the empty string is no filter: the call below returns records of the
  categories Mobiles and Audio, none of which is the empty string.
\<close>

theorem list_products_empty_category_counterexample:
  "list_products plain_env (Some mixed_db) (Some ''phone'') (Some []) 48
     = Inr [serialize (Some phone_a), serialize (Some headset), serialize (Some phone_b)]
   \<and> map (map_option category)
         [serialize (Some phone_a), serialize (Some headset), serialize (Some phone_b)]
       = [Some ''Mobiles'', Some ''Audio'', Some ''Mobiles'']"
  by (simp add: search_mixed_empty_category serialize_def phone_a_def phone_b_def headset_def)

text \<open>
  Claim C5 as the code has it: for every call that supplies a search string and a
  non-empty category and that returns, every returned record is a stored product whose
  category is the given one and, when the search string is not empty, whose title or
  description the store's engine matches against the search string as a pattern with
  the option \<^verbatim>\<open>i\<close>.
\<close>

theorem list_products_search_and_category:
  assumes cat: "c \<noteq> []"
      and res: "list_products e (Some s) (Some search) (Some c) limit = Inr items"
  shows "\<forall>it \<in> set items. \<exists>d \<in> set (collections s ''product'').
           it = serialize (Some d) \<and> category d = c
           \<and> (search = [] \<or>
                (\<exists>m. regex_compile e search ''i'' = Some m
                   \<and> (m (title d) \<or> (\<exists>t. description d = Some t \<and> m t))))"
proof (cases "search = []")
  case True
  have mt: "matches e (build_filt None (Some c)) = (\<lambda>d. category d = c)"
    by (rule ext) (rule matches_category [OF cat])
  have "list_products e (Some s) (Some search) (Some c) limit
          = list_products e (Some s) None (Some c) limit"
    unfolding True by (rule list_products_empty_search)
  with res have "items = map (\<lambda>d. serialize (Some d))
          (take (nat limit) (filter (\<lambda>d. category d = c) (collections s ''product'')))"
    by (simp add: list_products_def get_documents_def valid_no_search mt)
  then show ?thesis using True by (auto dest!: in_set_takeD)
next
  case False
  show ?thesis
  proof (cases "regex_compile e search ''i''")
    case None
    then have "\<not> list_all (entry_valid e) (build_filt (Some search) (Some c))"
      by (simp add: valid_search [OF False])
    then have "list_products e (Some s) (Some search) (Some c) limit = Inl Unhandled"
      by (simp add: list_products_def get_documents_def)
    with res show ?thesis by simp
  next
    case (Some m)
    let ?P = "\<lambda>d. (m (title d) \<or> (case description d of None \<Rightarrow> False | Some t \<Rightarrow> m t))
                  \<and> category d = c"
    have v: "list_all (entry_valid e) (build_filt (Some search) (Some c))"
      by (simp add: valid_search [OF False] Some)
    have mt: "matches e (build_filt (Some search) (Some c)) = ?P"
      by (rule ext) (rule matches_both [OF False cat Some])
    have items: "items = map (\<lambda>d. serialize (Some d))
          (take (nat limit) (filter ?P (collections s ''product'')))"
      using res by (simp add: list_products_def get_documents_def v mt)
    show ?thesis
    proof
      fix it assume "it \<in> set items"
      then obtain d where d: "d \<in> set (take (nat limit) (filter ?P (collections s ''product'')))"
        and it: "it = serialize (Some d)"
        using items by auto
      from d have "d \<in> set (filter ?P (collections s ''product''))" by (rule in_set_takeD)
      then have mem: "d \<in> set (collections s ''product'')" and P: "?P d" by simp_all
      from P have c: "category d = c" by simp
      from P have "m (title d) \<or> (\<exists>t. description d = Some t \<and> m t)"
        by (cases "description d") simp_all
      with Some have "\<exists>m. regex_compile e search ''i'' = Some m
                   \<and> (m (title d) \<or> (\<exists>t. description d = Some t \<and> m t))" by blast
      with mem it c
      show "\<exists>d \<in> set (collections s ''product'').
           it = serialize (Some d) \<and> category d = c
           \<and> (search = [] \<or>
                (\<exists>m. regex_compile e search ''i'' = Some m
                   \<and> (m (title d) \<or> (\<exists>t. description d = Some t \<and> m t))))" by blast
    qed
  qed
qed

theorem list_products_search_and_category_witness:
  "''Mobiles'' \<noteq> []
   \<and> list_products plain_env (Some mixed_db) (Some ''phone'') (Some ''Mobiles'') 48
       = Inr [serialize (Some phone_a), serialize (Some phone_b)]
   \<and> (\<exists>d \<in> set (collections mixed_db ''product'').
         serialize (Some phone_b) = serialize (Some d) \<and> category d = ''Mobiles''
         \<and> (\<exists>m. regex_compile plain_env ''phone'' ''i'' = Some m
                \<and> (m (title d) \<or> (\<exists>t. description d = Some t \<and> m t))))"
proof -
  have ne: "''Mobiles'' \<noteq> []" by simp
  from list_products_search_and_category [OF ne search_mixed_mobiles]
  have "\<exists>d \<in> set (collections mixed_db ''product'').
         serialize (Some phone_b) = serialize (Some d) \<and> category d = ''Mobiles''
         \<and> (''phone'' = [] \<or> (\<exists>m. regex_compile plain_env ''phone'' ''i'' = Some m
                \<and> (m (title d) \<or> (\<exists>t. description d = Some t \<and> m t))))"
    by simp
  then have "\<exists>d \<in> set (collections mixed_db ''product'').
         serialize (Some phone_b) = serialize (Some d) \<and> category d = ''Mobiles''
         \<and> (\<exists>m. regex_compile plain_env ''phone'' ''i'' = Some m
                \<and> (m (title d) \<or> (\<exists>t. description d = Some t \<and> m t)))"
    by simp
  with ne search_mixed_mobiles show ?thesis by blast
qed


end
